theory Spec2Isabelle
  imports Complex_Main
begin

section \<open>Z-Kinetic authority server: shared data\<close>

text \<open>
  The repository holds several generations of one Express server. Two of them carry the
  behaviour examined here: the "secure mode" server (endpoints \<open>/getChallenge\<close>,
  \<open>/attest\<close>, \<open>/verify\<close>) and the v3.0 production server (API-key middleware
  \<open>validateApiKey\<close>, \<open>/api/v1/challenge\<close>, \<open>/api/v1/verify\<close>, admin endpoints).
  Each handler is a function from the clock reading, the random bytes it draws, the
  request body and the server state to a result and the new state. Console output and the
  rows of the \<open>usage_logs\<close> table are not part of the state. The time is an integer
  number of milliseconds. A JSON number is given by its exact decimal value; what the
  handlers add, multiply and divide are the IEEE doubles it is read as.
\<close>

datatype risk = LOW | MEDIUM | HIGH | CRITICAL

subsection \<open>JavaScript numbers\<close>

text \<open>
  A number of the language: a finite double (given by its value), an infinity or NaN. The
  sign of zero is not kept; no operation used by the handlers tells \<open>-0\<close> from \<open>0\<close>.
\<close>

datatype jsnum = Fin real | PInf | NInf | NaN

text \<open>The binary exponent \<open>k\<close> of a positive real \<open>a\<close>: \<open>2 ^ k \<le> a < 2 ^ (k + 1)\<close>.\<close>

function log2_up :: "real \<Rightarrow> int" where
  "log2_up a = (if a < 2 then 0 else 1 + log2_up (a / 2))"
  by pat_completeness auto
termination
proof (relation "measure (\<lambda>a. nat \<lceil>a\<rceil>)")
  show "wf (measure (\<lambda>a. nat \<lceil>a\<rceil>))" by simp
next
  fix a :: real
  assume "\<not> a < 2"
  then have "a / 2 \<le> a - 1" by simp
  then have "\<lceil>a / 2\<rceil> \<le> \<lceil>a - 1\<rceil>" by (rule ceiling_mono)
  moreover have "\<lceil>a - 1\<rceil> = \<lceil>a\<rceil> - 1" by (rule ceiling_diff_one)
  moreover have "of_int 0 < a" using \<open>\<not> a < 2\<close> by simp
  then have "0 < \<lceil>a\<rceil>" by (simp only: less_ceiling_iff)
  ultimately have "nat \<lceil>a / 2\<rceil> < nat \<lceil>a\<rceil>" by linarith
  then show "(a / 2, a) \<in> measure (\<lambda>a. nat \<lceil>a\<rceil>)" by (simp only: in_measure)
qed

function log2_down :: "real \<Rightarrow> int" where
  "log2_down a = (if a \<le> 0 \<or> 1 \<le> a then 0 else log2_down (2 * a) - 1)"
  by pat_completeness auto
termination
proof (relation "measure (\<lambda>a. nat \<lceil>1 / a\<rceil>)")
  show "wf (measure (\<lambda>a. nat \<lceil>1 / a\<rceil>))" by simp
next
  fix a :: real
  assume "\<not> (a \<le> 0 \<or> 1 \<le> a)"
  then have a: "0 < a" "a < 1" by simp_all
  then have y: "1 < 1 / a" by simp
  have half: "1 / (2 * a) = (1 / a) / 2" by simp
  have "\<lceil>(1 / a) / 2\<rceil> < \<lceil>1 / a\<rceil>"
  proof (cases "1 / a \<le> 2")
    case True
    then have "(1 / a) / 2 \<le> of_int 1" by simp
    then have "\<lceil>(1 / a) / 2\<rceil> \<le> 1" by (simp only: ceiling_le_iff)
    moreover have "of_int 1 < 1 / a" using y by simp
    then have "1 < \<lceil>1 / a\<rceil>" by (simp only: less_ceiling_iff)
    ultimately show ?thesis by linarith
  next
    case False
    then have "(1 / a) / 2 \<le> 1 / a - 1" by simp
    then have "\<lceil>(1 / a) / 2\<rceil> \<le> \<lceil>1 / a - 1\<rceil>" by (rule ceiling_mono)
    moreover have "\<lceil>1 / a - 1\<rceil> = \<lceil>1 / a\<rceil> - 1" by (rule ceiling_diff_one)
    ultimately show ?thesis by linarith
  qed
  moreover have "of_int 0 < 1 / a" using a by simp
  then have "0 < \<lceil>1 / a\<rceil>" by (simp only: less_ceiling_iff)
  ultimately have "nat \<lceil>(1 / a) / 2\<rceil> < nat \<lceil>1 / a\<rceil>" by linarith
  then have "nat \<lceil>1 / (2 * a)\<rceil> < nat \<lceil>1 / a\<rceil>" by (simp only: half)
  then show "(2 * a, a) \<in> measure (\<lambda>a. nat \<lceil>1 / a\<rceil>)" by (simp only: in_measure)
qed

declare log2_up.simps [simp del] log2_down.simps [simp del]

definition ilog2 :: "real \<Rightarrow> int" where
  "ilog2 a = (if 1 \<le> a then log2_up a else log2_down a)"

definition pow2 :: "int \<Rightarrow> real" where
  "pow2 e = (if 0 \<le> e then 2 ^ nat e else 1 / 2 ^ nat (- e))"

text \<open>Rounding to the nearest integer, a tie going to the even one.\<close>

definition rne :: "real \<Rightarrow> int" where
  "rne x = (let f = \<lfloor>x\<rfloor>; d = x - of_int f
            in if d < 1 / 2 then f else if 1 / 2 < d then f + 1
               else if even f then f else f + 1)"

text \<open>
  The double nearest to a real (IEEE 754 binary64, round to nearest, ties to even): 53
  bits of mantissa, the exponent of the last bit not below \<open>-1074\<close>, and an infinity
  once the rounded value reaches \<open>2 ^ 1024\<close>.
\<close>

definition to_double :: "real \<Rightarrow> jsnum" where
  "to_double x =
     (if x = 0 then Fin 0
      else
        (let a = \<bar>x\<bar>;
             e = max (ilog2 a - 52) (- 1074);
             r = of_int (rne (a / pow2 e)) * pow2 e
         in if 2 ^ 1024 \<le> r then (if 0 < x then PInf else NInf)
            else Fin (if 0 < x then r else - r)))"

text \<open>\<open>a + b\<close> on numbers.\<close>

fun js_add :: "jsnum \<Rightarrow> jsnum \<Rightarrow> jsnum" where
  "js_add (Fin a) (Fin b) = to_double (a + b)"
| "js_add NaN b = NaN"
| "js_add a NaN = NaN"
| "js_add PInf NInf = NaN"
| "js_add NInf PInf = NaN"
| "js_add PInf b = PInf"
| "js_add NInf b = NInf"
| "js_add (Fin a) b = b"


text \<open>\<open>a / d\<close> for a positive finite divisor \<open>d\<close> (the handlers divide by literals only).\<close>

fun js_div :: "jsnum \<Rightarrow> real \<Rightarrow> jsnum" where
  "js_div (Fin a) d = to_double (a / d)"
| "js_div PInf d = PInf"
| "js_div NInf d = NInf"
| "js_div NaN d = NaN"

text \<open>\<open>a > b\<close> on numbers.\<close>

fun js_gt :: "jsnum \<Rightarrow> jsnum \<Rightarrow> bool" where
  "js_gt (Fin a) (Fin b) = (a > b)"
| "js_gt NaN b = False"
| "js_gt a NaN = False"
| "js_gt PInf PInf = False"
| "js_gt PInf b = True"
| "js_gt NInf b = False"
| "js_gt (Fin a) PInf = False"
| "js_gt (Fin a) NInf = True"



subsection \<open>Requests\<close>

text \<open>A JSON value as far as \<open>Array.prototype.join\<close> sees it in a response array.\<close>

datatype jsval = JNat nat | JString string | JNull

text \<open>\<open>userResponse\<close>: falsy (absent, null, 0, empty string), truthy but no array, or an array.\<close>

datatype user_response = RespMissing | RespNotArray | RespArray "jsval list"

text \<open>
  A sensor field of \<open>biometricData\<close>: a number (its decimal value), not there, \<open>null\<close>, a
  boolean, or a string. An array or an object is turned into a string by every operation
  the handlers apply to a sensor, and stands as that string. Of a string the model keeps
  the number it reads as, if it reads as one (\<open>None\<close> is NaN).
\<close>

datatype sensor = Num real | Undefined | Null | Bool bool | Str "real option"

record biometric =
  motion :: sensor
  touch :: sensor
  pattern :: sensor

fun dec_str :: "nat \<Rightarrow> string" where
  "dec_str n =
     (if n < 10 then [''0123456789'' ! n]
      else dec_str (n div 10) @ [''0123456789'' ! (n mod 10)])"

declare dec_str.simps [simp del]

fun to_str :: "jsval \<Rightarrow> string" where
  "to_str (JNat n) = dec_str n"
| "to_str (JString s) = s"
| "to_str JNull = []"

text \<open>\<open>xs.join('')\<close>\<close>

definition join :: "jsval list \<Rightarrow> string" where
  "join xs = concat (map to_str xs)"

text \<open>\<open>Array.isArray(userResponse) ? userResponse.join('') : ''\<close>\<close>

fun userCode_of :: "user_response \<Rightarrow> string" where
  "userCode_of (RespArray xs) = join xs"
| "userCode_of RespNotArray = []"
| "userCode_of RespMissing = []"

text \<open>Truthiness of a string-valued request field: absent and the empty string are falsy.\<close>

fun truthy :: "string option \<Rightarrow> bool" where
  "truthy None = False"
| "truthy (Some s) = (s \<noteq> [])"

fun key_of :: "string option \<Rightarrow> string" where
  "key_of None = []"
| "key_of (Some s) = s"

text \<open>
  The thresholds, taken on the decimal values of the readings. The source compares the
  doubles; reading a decimal as a double keeps the order, and the two agree but for a
  reading within the rounding error of a threshold.
\<close>

definition motionOK :: "real \<Rightarrow> bool" where
  "motionOK m = (m > 0.15)"

definition touchOK :: "real \<Rightarrow> bool" where
  "touchOK t = (t > 0.15)"

definition patternOK :: "real \<Rightarrow> bool" where
  "patternOK p = (p > 0.10)"

text \<open>\<open>[motionOK, touchOK, patternOK].filter(Boolean).length\<close>\<close>

definition sensorsActive :: "real \<Rightarrow> real \<Rightarrow> real \<Rightarrow> nat" where
  "sensorsActive m t p = length (filter (\<lambda>b. b) [motionOK m, touchOK t, patternOK p])"

text \<open>\<open>(motion + touch + pattern) / 3\<close> on three numbers.\<close>

definition avgScore :: "real \<Rightarrow> real \<Rightarrow> real \<Rightarrow> jsnum" where
  "avgScore m t p = js_div (js_add (js_add (to_double m) (to_double t)) (to_double p)) 3"

text \<open>\<open>avgScore > 0.7 ? 'LOW' : avgScore > 0.4 ? 'MEDIUM' : 'HIGH'\<close>\<close>

definition riskScore_of :: "jsnum \<Rightarrow> risk" where
  "riskScore_of avg =
     (if js_gt avg (to_double 0.7) then LOW
      else if js_gt avg (to_double 0.4) then MEDIUM else HIGH)"

text \<open>The list of reasons pushed on a failed verification, in the order of the source.\<close>

definition reasons_of :: "bool \<Rightarrow> real \<Rightarrow> real \<Rightarrow> real \<Rightarrow> string list" where
  "reasons_of codeMatch m t p =
     (if \<not> codeMatch then [''Wrong code''] else []) @
     (if \<not> motionOK m then [''No motion''] else []) @
     (if \<not> touchOK t then [''No touch''] else []) @
     (if \<not> patternOK p then [''No pattern''] else [])"

section \<open>The secure-mode server: \<open>/getChallenge\<close>, \<open>/attest\<close>, \<open>/verify\<close>\<close>

record challenge =
  c_code :: "nat list"
  c_expiry :: int
  c_used :: bool
  c_createdAt :: int

record session =
  s_deviceId :: string
  s_status :: string
  s_riskScore :: risk
  s_biometricScores :: "real \<times> real \<times> real"
  s_expiry :: int
  s_createdAt :: int
  s_nonce :: string

record stats =
  totalChallenges :: nat
  totalAttestations :: nat
  successfulAttestations :: nat
  failedAttestations :: nat
  panicModeActivations :: nat
  totalVerifications :: nat

record server =
  activeChallenges :: "string \<rightharpoonup> challenge"
  sessions :: "string \<rightharpoonup> session"
  stats :: stats

record attest_req =
  r_nonce :: "string option"
  r_deviceId :: "string option"
  r_userResponse :: user_response
  r_biometricData :: "biometric option"

text \<open>
  What \<open>/attest\<close> answers. \<open>PanicApproved\<close> carries the token, \<open>Approved\<close> the token, the
  risk score and the token's expiry, \<open>Denied\<close> the reasons.
\<close>

datatype attest_result =
    MissingFields
  | InvalidNonce
  | ReplayAttack
  | ChallengeExpired
  | PanicApproved string
  | BadBiometric
  | Approved string risk int
  | Denied "string list"

text \<open>The periodic sweep: entries whose expiry lies before \<open>now\<close> are deleted.\<close>

definition sweep_challenges :: "int \<Rightarrow> (string \<rightharpoonup> 'a challenge_scheme) \<Rightarrow> (string \<rightharpoonup> 'a challenge_scheme)" where
  "sweep_challenges now m =
     (\<lambda>k. case m k of None \<Rightarrow> None
          | Some d \<Rightarrow> if c_expiry d < now then None else Some d)"

definition sweep_sessions :: "int \<Rightarrow> (string \<rightharpoonup> session) \<Rightarrow> (string \<rightharpoonup> session)" where
  "sweep_sessions now m =
     (\<lambda>k. case m k of None \<Rightarrow> None
          | Some d \<Rightarrow> if s_expiry d < now then None else Some d)"

definition cleanup :: "int \<Rightarrow> server \<Rightarrow> server" where
  "cleanup now st =
     st\<lparr>activeChallenges := sweep_challenges now (activeChallenges st),
        sessions := sweep_sessions now (sessions st)\<rparr>"

text \<open>
  \<open>/getChallenge\<close>: \<open>digits\<close> are the three draws of \<open>Math.floor(Math.random() * 10)\<close>
  and \<open>nonce\<close> the hex string of \<open>crypto.randomBytes(16)\<close>.
\<close>

definition getChallenge :: "int \<Rightarrow> nat list \<Rightarrow> string \<Rightarrow> server \<Rightarrow> server" where
  "getChallenge now digits nonce st =
     st\<lparr>activeChallenges := (activeChallenges st)(nonce \<mapsto>
          \<lparr>c_code = digits, c_expiry = now + 60 * 1000, c_used = False, c_createdAt = now\<rparr>),
        stats := (stats st)\<lparr>totalChallenges := totalChallenges (stats st) + 1\<rparr>\<rparr>"

definition fail_attest :: "server \<Rightarrow> server" where
  "fail_attest st = st\<lparr>stats := (stats st)\<lparr>failedAttestations := failedAttestations (stats st) + 1\<rparr>\<rparr>"

text \<open>Step E of \<open>/attest\<close>: \<open>challengeData.used = true; activeChallenges.delete(nonce)\<close>.\<close>

definition consume :: "string \<Rightarrow> challenge \<Rightarrow> server \<Rightarrow> server" where
  "consume n ch st =
     st\<lparr>activeChallenges := ((activeChallenges st)(n \<mapsto> ch\<lparr>c_used := True\<rparr>))(n := None)\<rparr>"

text \<open>Steps H to J of \<open>/attest\<close>, after the panic check; \<open>st\<close> is the state after step E.\<close>

definition attest_normal ::
  "int \<Rightarrow> string \<Rightarrow> string \<Rightarrow> string \<Rightarrow> bool \<Rightarrow> biometric \<Rightarrow> server \<Rightarrow> attest_result \<times> server" where
  "attest_normal now rnd n dev codeMatch bio st =
     (case (motion bio, touch bio, pattern bio) of
        (Num m, Num t, Num p) \<Rightarrow>
          if codeMatch \<and> sensorsActive m t p \<ge> 2 then
            (let validToken = ''VALID_'' @ rnd;
                 tokenExpiry = now + 5 * 60 * 1000;
                 riskScore = riskScore_of (avgScore m t p)
             in (Approved validToken riskScore tokenExpiry,
                 st\<lparr>sessions := (sessions st)(validToken \<mapsto>
                      \<lparr>s_deviceId = dev, s_status = ''VERIFIED'', s_riskScore = riskScore,
                       s_biometricScores = (m, t, p), s_expiry = tokenExpiry,
                       s_createdAt = now, s_nonce = n\<rparr>),
                    stats := (stats st)\<lparr>totalAttestations := totalAttestations (stats st) + 1,
                      successfulAttestations := successfulAttestations (stats st) + 1\<rparr>\<rparr>))
          else (Denied (reasons_of codeMatch m t p), fail_attest st)
      | _ \<Rightarrow> (BadBiometric, fail_attest st))"

text \<open>
  \<open>/attest\<close>. \<open>now\<close> is \<open>Date.now()\<close> and \<open>rnd\<close> the hex string of
  \<open>crypto.randomBytes(24)\<close> that the handler draws for a token.
\<close>

definition attest :: "int \<Rightarrow> string \<Rightarrow> attest_req \<Rightarrow> server \<Rightarrow> attest_result \<times> server" where
  "attest now rnd req st =
     (if \<not> truthy (r_nonce req) \<or> \<not> truthy (r_deviceId req) \<or>
         r_userResponse req = RespMissing \<or> r_biometricData req = None
      then (MissingFields, st)
      else
        (let n = key_of (r_nonce req) in
         case activeChallenges st n of
           None \<Rightarrow> (InvalidNonce, st)
         | Some challengeData \<Rightarrow>
             if c_used challengeData then (ReplayAttack, fail_attest st)
             else if c_expiry challengeData < now
             then (ChallengeExpired,
                   fail_attest (st\<lparr>activeChallenges := (activeChallenges st)(n := None)\<rparr>))
             else
               (let st1 = consume n challengeData st;
                    serverCode = join (map JNat (c_code challengeData));
                    userCode = userCode_of (r_userResponse req);
                    panicCode = join (map JNat (rev (c_code challengeData)))
                in if userCode = panicCode
                   then (PanicApproved (''DURESS_'' @ rnd),
                         st1\<lparr>stats := (stats st1)\<lparr>panicModeActivations :=
                                panicModeActivations (stats st1) + 1\<rparr>\<rparr>)
                   else
                     (case r_biometricData req of
                        None \<Rightarrow> (BadBiometric, fail_attest st1)
                      | Some bio \<Rightarrow>
                          attest_normal now rnd n (key_of (r_deviceId req))
                            (userCode = serverCode) bio st1))))"

text \<open>
  \<open>/verify\<close> of the secure-mode server: validation of a session token. The answer for a
  valid token carries \<open>riskScore\<close>, \<open>deviceId\<close>, \<open>verifiedAt\<close> and \<open>expiresAt\<close>.
\<close>

datatype session_result =
    MissingToken
  | INVALID
  | EXPIRED
  | VALID risk string int int

definition count_verification :: "server \<Rightarrow> server" where
  "count_verification st =
     st\<lparr>stats := (stats st)\<lparr>totalVerifications := totalVerifications (stats st) + 1\<rparr>\<rparr>"

definition verify_session :: "int \<Rightarrow> string option \<Rightarrow> server \<Rightarrow> session_result \<times> server" where
  "verify_session now sessionToken st =
     (if \<not> truthy sessionToken then (MissingToken, st)
      else
        (let tok = key_of sessionToken in
         case sessions st tok of
           None \<Rightarrow> (INVALID, count_verification st)
         | Some session \<Rightarrow>
             if s_expiry session < now
             then (EXPIRED, count_verification (st\<lparr>sessions := (sessions st)(tok := None)\<rparr>))
             else (VALID (s_riskScore session) (s_deviceId session)
                     (s_createdAt session) (s_expiry session),
                   count_verification st)))"

subsection \<open>The JSON bodies of \<open>/attest\<close>\<close>

datatype json = JBool bool | JStr string | JInt int | JStrs "string list"

fun risk_str :: "risk \<Rightarrow> string" where
  "risk_str LOW = ''LOW''"
| "risk_str MEDIUM = ''MEDIUM''"
| "risk_str HIGH = ''HIGH''"
| "risk_str CRITICAL = ''CRITICAL''"

text \<open>HTTP status and body (field names with their values, in the order written).\<close>

fun attest_response :: "attest_result \<Rightarrow> nat \<times> (string \<times> json) list" where
  "attest_response MissingFields =
     (400, [(''success'', JBool False), (''error'', JStr ''Missing required fields'')])"
| "attest_response InvalidNonce =
     (403, [(''success'', JBool False), (''error'', JStr ''Invalid or expired nonce'')])"
| "attest_response ReplayAttack =
     (403, [(''success'', JBool False),
            (''error'', JStr ''Nonce already used (replay attack detected)'')])"
| "attest_response ChallengeExpired =
     (403, [(''success'', JBool False), (''error'', JStr ''Challenge expired'')])"
| "attest_response (PanicApproved panicToken) =
     (200, [(''success'', JBool True), (''sessionToken'', JStr panicToken),
            (''verdict'', JStr ''APPROVED_SILENT_ALARM''), (''riskScore'', JStr ''CRITICAL'')])"
| "attest_response BadBiometric =
     (400, [(''success'', JBool False), (''error'', JStr ''Invalid biometric data format'')])"
| "attest_response (Approved validToken riskScore tokenExpiry) =
     (200, [(''success'', JBool True), (''sessionToken'', JStr validToken),
            (''verdict'', JStr ''APPROVED''), (''riskScore'', JStr (risk_str riskScore)),
            (''expiry'', JInt tokenExpiry)])"
| "attest_response (Denied reasons) =
     (401, [(''success'', JBool False), (''error'', JStr ''Verification failed''),
            (''reasons'', JStrs reasons)])"

definition field_names :: "nat \<times> (string \<times> json) list \<Rightarrow> string set" where
  "field_names r = set (map fst (snd r))"

section \<open>The v3.0 server: client registry, \<open>validateApiKey\<close>, \<open>/api/v1/verify\<close>\<close>

text \<open>
  The v3.0 server has maps and counters of the same names as the secure-mode server; here
  they are \<open>challenges3\<close> (\<open>activeChallenges\<close>), \<open>sessions3\<close> and \<open>stats3\<close>, and its
  challenges are the record \<open>challenge3\<close>, which adds the owner's key and name.
\<close>

text \<open>
  A row of the table \<open>clients\<close>. \<open>expires_at\<close> is nullable and holds the number the
  server wrote, as it reads it back.
\<close>

record client =
  api_key :: string
  name :: string
  plan :: string
  status :: string
  created_at :: int
  expires_at :: "jsnum option"
  monthly_limit :: int
  used_this_month :: int
  last_reset_month :: string
  total_verifications :: int

text \<open>\<open>SELECT * FROM clients WHERE api_key = ?\<close>, first row.\<close>

definition stmtGetClient :: "string \<Rightarrow> client list \<Rightarrow> client option" where
  "stmtGetClient k rows = find (\<lambda>r. api_key r = k) rows"

text \<open>
  \<open>UPDATE clients SET status = ?, expires_at = ?, used_this_month = ?,
  last_reset_month = ?, total_verifications = ? WHERE api_key = ?\<close>
\<close>

definition stmtUpdateClient ::
  "string \<Rightarrow> jsnum option \<Rightarrow> int \<Rightarrow> string \<Rightarrow> int \<Rightarrow> string \<Rightarrow> client list \<Rightarrow> client list" where
  "stmtUpdateClient st ex n month tv k rows =
     map (\<lambda>r. if api_key r = k
              then r\<lparr>status := st, expires_at := ex, used_this_month := n,
                     last_reset_month := month, total_verifications := tv\<rparr>
              else r) rows"

record challenge3 = challenge +
  c_apiKey :: string
  c_clientName :: string

record stats3 =
  v_totalChallenges :: nat
  v_totalVerifications :: nat
  v_successfulVerifications :: nat
  v_failedVerifications :: nat
  v_blockedRequests :: nat

record server3 =
  clients :: "client list"
  challenges3 :: "string \<rightharpoonup> challenge3"
  sessions3 :: "string \<rightharpoonup> session"
  stats3 :: stats3

text \<open>
  \<open>checkMonthlyReset(client)\<close>: \<open>thisMonth\<close> is the string
  \<open>`${now.getFullYear()}-${now.getMonth()}`\<close> of the clock at the call. It changes the
  client object in hand and the row in the table.
\<close>

definition checkMonthlyReset :: "string \<Rightarrow> client \<Rightarrow> client list \<Rightarrow> client \<times> client list" where
  "checkMonthlyReset thisMonth client rows =
     (if last_reset_month client \<noteq> thisMonth
      then (client\<lparr>used_this_month := 0, last_reset_month := thisMonth\<rparr>,
            stmtUpdateClient (status client) (expires_at client) 0 thisMonth
              (total_verifications client) (api_key client) rows)
      else (client, rows))"





text \<open>
  The body of a request to \<open>/api/v1/verify\<close>. When a sensor is a string, the sum
  \<open>motion + touch + pattern\<close> is a concatenation of strings and the average is the number
  that string reads as, divided by 3; string conversion is not modelled, and the request
  carries that number as \<open>v_concatAverage\<close>. It is not looked at otherwise.
\<close>

record verify_req =
  v_nonce :: "string option"
  v_userResponse :: user_response
  v_biometricData :: "biometric option"
  v_concatAverage :: jsnum

text \<open>
  What \<open>/api/v1/verify\<close> answers, named after its error strings; \<open>Allowed\<close> carries
  \<open>riskScore\<close> and \<open>clientName\<close>, \<open>Verification_failed\<close> the reasons.
\<close>

datatype verify_result =
    Missing_fields
  | Invalid_or_expired_nonce
  | API_key_mismatch
  | Nonce_already_used
  | Challenge_expired
  | Allowed risk string
  | Verification_failed "string list"

text \<open>
  \<open>const { motion = 0, touch = 0, pattern = 0 } = biometricData || {}\<close>, and the number
  the comparisons with the thresholds then see: 0 for \<open>null\<close> and \<open>false\<close>, 1 for \<open>true\<close>,
  the number a string reads as. NaN is above no threshold, and neither is the 0 that
  stands for it here.
\<close>

fun num_or_0 :: "sensor \<Rightarrow> real" where
  "num_or_0 (Num r) = r"
| "num_or_0 Undefined = 0"
| "num_or_0 Null = 0"
| "num_or_0 (Bool b) = (if b then 1 else 0)"
| "num_or_0 (Str (Some r)) = r"
| "num_or_0 (Str None) = 0"

fun is_str :: "sensor \<Rightarrow> bool" where
  "is_str (Str v) = True"
| "is_str x = False"

text \<open>\<open>(motion + touch + pattern) / 3\<close> in \<open>/api/v1/verify\<close>, which checks no types.\<close>

definition avgScore3 :: "biometric \<Rightarrow> jsnum \<Rightarrow> jsnum" where
  "avgScore3 bio concatAverage =
     (if is_str (motion bio) \<or> is_str (touch bio) \<or> is_str (pattern bio) then concatAverage
      else avgScore (num_or_0 (motion bio)) (num_or_0 (touch bio)) (num_or_0 (pattern bio)))"

definition fail_verify :: "server3 \<Rightarrow> server3" where
  "fail_verify st =
     st\<lparr>stats3 := (stats3 st)\<lparr>v_failedVerifications := v_failedVerifications (stats3 st) + 1\<rparr>\<rparr>"

text \<open>\<open>challengeData.used = true; activeChallenges.delete(nonce)\<close>\<close>

definition consume3 :: "string \<Rightarrow> challenge3 \<Rightarrow> server3 \<Rightarrow> server3" where
  "consume3 n ch st =
     st\<lparr>challenges3 := ((challenges3 st)(n \<mapsto> ch\<lparr>c_used := True\<rparr>))(n := None)\<rparr>"

text \<open>
  The success branch of \<open>/api/v1/verify\<close>: the monthly reset is checked once more, then
  the row is written with both counters increased by one.
\<close>

definition record_success :: "string \<Rightarrow> client \<Rightarrow> server3 \<Rightarrow> server3" where
  "record_success thisMonth client st =
     (case checkMonthlyReset thisMonth client (clients st) of
        (client', rows') \<Rightarrow>
          st\<lparr>clients :=
               stmtUpdateClient (status client') (expires_at client')
                 (used_this_month client' + 1) (last_reset_month client')
                 (total_verifications client' + 1) (api_key client') rows',
             stats3 := (stats3 st)\<lparr>v_totalVerifications := v_totalVerifications (stats3 st) + 1,
               v_successfulVerifications := v_successfulVerifications (stats3 st) + 1\<rparr>\<rparr>)"

definition record_failure :: "server3 \<Rightarrow> server3" where
  "record_failure st =
     st\<lparr>stats3 := (stats3 st)\<lparr>v_totalVerifications := v_totalVerifications (stats3 st) + 1,
       v_failedVerifications := v_failedVerifications (stats3 st) + 1\<rparr>\<rparr>"

text \<open>
  The handler of \<open>/api/v1/verify\<close>, run after \<open>validateApiKey\<close> has stored the client in
  \<open>req.client\<close>.
\<close>

definition api_verify ::
  "int \<Rightarrow> string \<Rightarrow> client \<Rightarrow> verify_req \<Rightarrow> server3 \<Rightarrow> verify_result \<times> server3" where
  "api_verify now thisMonth client req st =
     (if \<not> truthy (v_nonce req) \<or> v_userResponse req = RespMissing \<or> v_biometricData req = None
      then (Missing_fields, st)
      else
        (let n = key_of (v_nonce req) in
         case challenges3 st n of
           None \<Rightarrow> (Invalid_or_expired_nonce, st)
         | Some challengeData \<Rightarrow>
             if c_apiKey challengeData \<noteq> api_key client then (API_key_mismatch, st)
             else if c_used challengeData then (Nonce_already_used, fail_verify st)
             else if c_expiry challengeData < now
             then (Challenge_expired,
                   fail_verify (st\<lparr>challenges3 := (challenges3 st)(n := None)\<rparr>))
             else
               (let st1 = consume3 n challengeData st;
                    serverCode = join (map JNat (c_code challengeData));
                    userCode = userCode_of (v_userResponse req);
                    bio = (case v_biometricData req of
                             None \<Rightarrow> \<lparr>motion = Undefined, touch = Undefined, pattern = Undefined\<rparr>
                           | Some b \<Rightarrow> b);
                    m = num_or_0 (motion bio);
                    t = num_or_0 (touch bio);
                    p = num_or_0 (pattern bio);
                    codeMatch = (userCode = serverCode)
                in if codeMatch \<and> sensorsActive m t p \<ge> 1
                   then (Allowed (riskScore_of (avgScore3 bio (v_concatAverage req)))
                           (name client),
                         record_success thisMonth client st1)
                   else (Verification_failed (reasons_of codeMatch m t p),
                         record_failure st1))))"


text \<open>The sweep of the v3.0 server.\<close>

definition cleanup3 :: "int \<Rightarrow> server3 \<Rightarrow> server3" where
  "cleanup3 now st =
     st\<lparr>challenges3 := sweep_challenges now (challenges3 st),
        sessions3 := sweep_sessions now (sessions3 st)\<rparr>"







section \<open>Sequences of calls and classes of answers\<close>








fun approving :: "attest_result \<Rightarrow> bool" where
  "approving (Approved tok r e) = True"
| "approving (PanicApproved tok) = True"
| "approving _ = False"

fun approving3 :: "verify_result \<Rightarrow> bool" where
  "approving3 (Allowed r nm) = True"
| "approving3 _ = False"











section \<open>Example inputs\<close>

text \<open>
  One pending challenge with the code 4, 1, 9 issued at time 0 under the nonce \<open>n1\<close>, in
  each server; one tenant \<open>Acme\<close>.
\<close>

definition ex_challenge :: challenge where
  "ex_challenge = \<lparr>c_code = [4, 1, 9], c_expiry = 60000, c_used = False, c_createdAt = 0\<rparr>"

definition ex_stats :: stats where
  "ex_stats = \<lparr>totalChallenges = 1, totalAttestations = 0, successfulAttestations = 0,
     failedAttestations = 0, panicModeActivations = 0, totalVerifications = 0\<rparr>"

definition ex_server :: server where
  "ex_server = \<lparr>activeChallenges = [''n1'' \<mapsto> ex_challenge], sessions = Map.empty,
     stats = ex_stats\<rparr>"

definition ex_bio :: "real \<Rightarrow> real \<Rightarrow> real \<Rightarrow> biometric" where
  "ex_bio m t p = \<lparr>motion = Num m, touch = Num t, pattern = Num p\<rparr>"

definition ex_req :: "nat list \<Rightarrow> biometric \<Rightarrow> attest_req" where
  "ex_req digits bio =
     \<lparr>r_nonce = Some ''n1'', r_deviceId = Some ''dev'',
      r_userResponse = RespArray (map JNat digits), r_biometricData = Some bio\<rparr>"

definition ex_req_ok :: attest_req where
  "ex_req_ok = ex_req [4, 1, 9] (ex_bio 0.5 0.5 0.5)"

definition ex_req_wrong :: attest_req where
  "ex_req_wrong = ex_req [4, 1, 8] (ex_bio 0.5 0.5 0.5)"

definition ex_req_panic :: attest_req where
  "ex_req_panic = ex_req [9, 1, 4] (ex_bio 0 0 0)"

definition ex_req_one_sensor :: attest_req where
  "ex_req_one_sensor = ex_req [4, 1, 9] (ex_bio 0.5 0 0)"

text \<open>The correct code, with the motion reading sent as the string \<open>"0.5"\<close>.\<close>

definition ex_req_bad :: attest_req where
  "ex_req_bad = ex_req [4, 1, 9] \<lparr>motion = Str (Some 0.5), touch = Num 0.5, pattern = Num 0.5\<rparr>"



definition ex_session :: session where
  "ex_session = \<lparr>s_deviceId = ''dev'', s_status = ''VERIFIED'', s_riskScore = MEDIUM,
     s_biometricScores = (0.5, 0.5, 0.5), s_expiry = 301000, s_createdAt = 1000,
     s_nonce = ''n1''\<rparr>"

definition ex_server_s :: server where
  "ex_server_s = \<lparr>activeChallenges = Map.empty, sessions = [''VALID_aa'' \<mapsto> ex_session],
     stats = ex_stats\<rparr>"

definition ex_client :: client where
  "ex_client = \<lparr>api_key = ''zk_live_1'', name = ''Acme'', plan = ''starter'', status = ''active'',
     created_at = 0, expires_at = Some (Fin 2592000000), monthly_limit = 5000, used_this_month = 7,
     last_reset_month = ''2026-9'', total_verifications = 40\<rparr>"

definition ex_challenge3 :: challenge3 where
  "ex_challenge3 = \<lparr>c_code = [4, 1, 9], c_expiry = 60000, c_used = False, c_createdAt = 0,
     c_apiKey = ''zk_live_1'', c_clientName = ''Acme''\<rparr>"

definition ex_stats3 :: stats3 where
  "ex_stats3 = \<lparr>v_totalChallenges = 1, v_totalVerifications = 0, v_successfulVerifications = 0,
     v_failedVerifications = 0, v_blockedRequests = 0\<rparr>"

definition ex_server3 :: server3 where
  "ex_server3 = \<lparr>clients = [ex_client], challenges3 = [''n1'' \<mapsto> ex_challenge3],
     sessions3 = Map.empty, stats3 = ex_stats3\<rparr>"

definition ex_ok3 :: verify_req where
  "ex_ok3 = \<lparr>v_nonce = Some ''n1'', v_userResponse = RespArray (map JNat [4, 1, 9]),
     v_biometricData = Some (ex_bio 0.5 0.5 0.5), v_concatAverage = NaN\<rparr>"


definition ex_final3 :: server3 where
  "ex_final3 = \<lparr>clients = [ex_client\<lparr>used_this_month := 8, total_verifications := 41\<rparr>],
     challenges3 = Map.empty, sessions3 = Map.empty,
     stats3 = ex_stats3\<lparr>v_totalVerifications := 1, v_successfulVerifications := 1\<rparr>\<rparr>"




section \<open>Auxiliary lemmas\<close>

subsection \<open>Doubles\<close>

lemma pow2_pos: "0 < pow2 e"
  by (simp add: pow2_def)

lemma pow2_Suc: "pow2 (e + 1) = 2 * pow2 e"
proof (cases "0 \<le> e")
  case True
  then have "nat (e + 1) = Suc (nat e)" by simp
  with True show ?thesis by (simp add: pow2_def)
next
  case False
  then have "nat (- e) = Suc (nat (- (e + 1)))" by simp
  with False show ?thesis by (simp add: pow2_def)
qed

lemma pow2_pred: "pow2 (e - 1) = pow2 e / 2"
  using pow2_Suc [of "e - 1"] by simp

lemma pow2_mono: "a \<le> b \<Longrightarrow> pow2 a \<le> pow2 b"
proof -
  have "pow2 (a + int n) \<ge> pow2 a" for n
  proof (induction n)
    case 0
    show ?case by simp
  next
    case (Suc n)
    have "pow2 (a + int (Suc n)) = 2 * pow2 (a + int n)"
      using pow2_Suc [of "a + int n"] by (simp add: ac_simps)
    with Suc pow2_pos [of "a + int n"] show ?case by linarith
  qed
  from this [of "nat (b - a)"] show "a \<le> b \<Longrightarrow> pow2 a \<le> pow2 b" by simp
qed

lemma log2_up_bounds:
  "1 \<le> a \<Longrightarrow> 0 \<le> log2_up a \<and> pow2 (log2_up a) \<le> a \<and> a < pow2 (log2_up a + 1)"
proof (induction a rule: log2_up.induct)
  case (1 a)
  show ?case
  proof (cases "a < 2")
    case True
    with 1(2) show ?thesis by (simp add: log2_up.simps pow2_def)
  next
    case False
    then have "1 \<le> a / 2" by simp
    from 1(1) [OF False this]
    have h: "0 \<le> log2_up (a / 2)" "pow2 (log2_up (a / 2)) \<le> a / 2"
      "a / 2 < pow2 (log2_up (a / 2) + 1)" by simp_all
    have e: "log2_up a = log2_up (a / 2) + 1" using False by (simp add: log2_up.simps)
    from h show ?thesis unfolding e using pow2_Suc [of "log2_up (a / 2)"]
      pow2_Suc [of "log2_up (a / 2) + 1"] by simp
  qed
qed

lemma log2_down_bounds:
  "0 < a \<Longrightarrow> a < 1 \<Longrightarrow>
     log2_down a < 0 \<and> pow2 (log2_down a) \<le> a \<and> a < pow2 (log2_down a + 1)"
proof (induction a rule: log2_down.induct)
  case (1 a)
  from 1(2,3) have n: "\<not> (a \<le> 0 \<or> 1 \<le> a)" by simp
  then have e: "log2_down a = log2_down (2 * a) - 1" by (simp add: log2_down.simps)
  show ?case
  proof (cases "2 * a < 1")
    case True
    from 1(1) [OF n _ True] 1(2)
    have h: "log2_down (2 * a) < 0" "pow2 (log2_down (2 * a)) \<le> 2 * a"
      "2 * a < pow2 (log2_down (2 * a) + 1)" by simp_all
    from h show ?thesis unfolding e using pow2_pred [of "log2_down (2 * a)"]
      pow2_Suc [of "log2_down (2 * a)"] by simp
  next
    case False
    then have "log2_down (2 * a) = 0" by (simp add: log2_down.simps)
    with e have "log2_down a = - 1" by simp
    with False 1(3) show ?thesis by (simp add: pow2_def)
  qed
qed

lemma ilog2_bounds:
  assumes "0 < a"
  shows "pow2 (ilog2 a) \<le> a \<and> a < pow2 (ilog2 a + 1)"
proof (cases "1 \<le> a")
  case True
  with log2_up_bounds [OF True] show ?thesis by (simp add: ilog2_def)
next
  case False
  with log2_down_bounds [of a] assms show ?thesis by (simp add: ilog2_def)
qed

lemma ilog2_unique:
  assumes "pow2 k \<le> a" "a < pow2 (k + 1)"
  shows "ilog2 a = k"
proof -
  from assms(1) pow2_pos [of k] have p: "0 < a" by linarith
  from ilog2_bounds [OF p] have b: "pow2 (ilog2 a) \<le> a" "a < pow2 (ilog2 a + 1)" by simp_all
  have "\<not> ilog2 a < k"
  proof
    assume "ilog2 a < k"
    then have "pow2 (ilog2 a + 1) \<le> pow2 k" by (intro pow2_mono) simp
    with b(2) assms(1) show False by linarith
  qed
  moreover have "\<not> k < ilog2 a"
  proof
    assume "k < ilog2 a"
    then have "pow2 (k + 1) \<le> pow2 (ilog2 a)" by (intro pow2_mono) simp
    with b(1) assms(2) show False by linarith
  qed
  ultimately show ?thesis by linarith
qed



lemma to_double_eval:
  assumes k: "pow2 k \<le> x" "x < pow2 (k + 1)" and m: "- 1022 \<le> k"
    and n: "rne (x / pow2 (k - 52)) = n" and r: "of_int n * pow2 (k - 52) < 2 ^ 1024"
  shows "to_double x = Fin (of_int n * pow2 (k - 52))"
proof -
  from k(1) pow2_pos [of k] have p: "0 < x" by linarith
  then have a: "\<bar>x\<bar> = x" by simp
  from k have i: "ilog2 x = k" by (rule ilog2_unique)
  from m have e: "max (k - 52) (- 1074) = k - 52" by simp
  from p have z: "x \<noteq> 0" by simp
  show ?thesis
    unfolding to_double_def Let_def a i e n using p z r by simp
qed



lemma double_1_2: "to_double (1 / 2) = Fin (1 / 2)"
  using to_double_eval [of "- 1" "1 / 2" "4503599627370496"]
  by (simp add: pow2_def rne_def)

lemma double_1: "to_double 1 = Fin 1"
  using to_double_eval [of "0" "1" "4503599627370496"]
  by (simp add: pow2_def rne_def)

lemma double_3_2: "to_double (3 / 2) = Fin (3 / 2)"
  using to_double_eval [of "0" "3 / 2" "6755399441055744"]
  by (simp add: pow2_def rne_def)

lemma double_2_5: "to_double (2 / 5) = Fin (3602879701896397 / 9007199254740992)"
  using to_double_eval [of "- 2" "2 / 5" "7205759403792794"]
  by (simp add: pow2_def rne_def)

lemma double_7_10: "to_double (7 / 10) = Fin (3152519739159347 / 4503599627370496)"
  using to_double_eval [of "- 1" "7 / 10" "6305039478318694"]
  by (simp add: pow2_def rne_def)










lemma avgScore_half: "avgScore (1 / 2) (1 / 2) (1 / 2) = Fin (1 / 2)"
  by (simp add: avgScore_def double_1_2 double_1 double_3_2)



lemma riskScore_half: "riskScore_of (avgScore (1 / 2) (1 / 2) (1 / 2)) = MEDIUM"
  by (simp add: riskScore_of_def avgScore_half double_7_10 double_2_5)



subsection \<open>Unfolding the handlers on the examples\<close>

lemmas ex_defs = ex_req_def ex_bio_def ex_server_def ex_challenge_def ex_stats_def
  ex_client_def ex_challenge3_def ex_stats3_def ex_server3_def ex_ok3_def
  ex_req_ok_def ex_req_wrong_def ex_req_panic_def ex_req_one_sensor_def ex_req_bad_def

lemmas handler_defs = attest_def attest_normal_def consume_def fail_attest_def
  api_verify_def consume3_def fail_verify_def record_success_def record_failure_def
  checkMonthlyReset_def stmtUpdateClient_def stmtGetClient_def
  join_def dec_str.simps Let_def sensorsActive_def reasons_of_def
  motionOK_def touchOK_def patternOK_def avgScore3_def riskScore_half

subsection \<open>Runs\<close>







subsection \<open>Single calls and the nonce store\<close>










lemma ex_allowed:
  "api_verify 1000 ''2026-9'' ex_client ex_ok3 ex_server3 = (Allowed MEDIUM ''Acme'', ex_final3)"
  by (simp add: ex_final3_def ex_defs handler_defs)



subsection \<open>The table of clients\<close>

lemma get_after_update:
  "stmtGetClient k (stmtUpdateClient a b c d e k rows) =
     map_option (\<lambda>r. r\<lparr>status := a, expires_at := b, used_this_month := c,
                        last_reset_month := d, total_verifications := e\<rparr>)
       (stmtGetClient k rows)"
  by (induction rows) (auto simp: stmtGetClient_def stmtUpdateClient_def)



lemma prefix_distinct: "''DURESS_'' @ a \<noteq> ''VALID_'' @ b"
  by simp

subsection \<open>Sensors, risk score and the example calls\<close>





lemma ex_panic:
  "attest 1000 ''aa'' ex_req_panic ex_server =
     (PanicApproved ''DURESS_aa'',
      \<lparr>activeChallenges = Map.empty, sessions = Map.empty,
       stats = ex_stats\<lparr>panicModeActivations := 1\<rparr>\<rparr>)"
  by (simp add: ex_defs handler_defs)

lemma ex_approved:
  "attest 1000 ''aa'' ex_req_ok ex_server =
     (Approved ''VALID_aa'' MEDIUM 301000,
      \<lparr>activeChallenges = Map.empty, sessions = [''VALID_aa'' \<mapsto> ex_session],
       stats = ex_stats\<lparr>totalAttestations := 1, successfulAttestations := 1\<rparr>\<rparr>)"
  by (simp add: ex_session_def ex_defs handler_defs)

subsection \<open>Sessions, expiry and the quota\<close>

lemma attest_sessions_unchanged:
  "attest now rnd req st = (res, st') \<Longrightarrow> (\<forall>tok r e. res \<noteq> Approved tok r e) \<Longrightarrow>
     sessions st' = sessions st"
  by (auto simp: attest_def attest_normal_def consume_def fail_attest_def Let_def
      split: if_splits option.splits sensor.splits)

lemma attest_approved_session:
  "attest now rnd req st = (Approved tok r e, st') \<Longrightarrow>
     tok = ''VALID_'' @ rnd \<and> e = now + 5 * 60 * 1000 \<and>
     (\<exists>s. sessions st' = (sessions st)(tok \<mapsto> s) \<and> s_riskScore s = r \<and> s_expiry s = e \<and>
          s_deviceId s = key_of (r_deviceId req) \<and> s_createdAt s = now \<and>
          s_nonce s = key_of (r_nonce req))"
  by (auto simp: attest_def attest_normal_def consume_def fail_attest_def Let_def
      split: if_splits option.splits sensor.splits)

lemma api_verify_sessions:
  "api_verify now thisMonth client vreq st3 = (res, st3') \<Longrightarrow> sessions3 st3' = sessions3 st3"
  by (auto simp: api_verify_def consume3_def fail_verify_def record_success_def record_failure_def
      Let_def split: if_splits option.splits prod.splits)

lemma api_verify_usage:
  assumes "api_verify now thisMonth client vreq st3 = (Allowed r nm, st3')"
    and "stmtGetClient (api_key client) (clients st3) = Some row"
  shows "stmtGetClient (api_key client) (clients st3') =
     Some (row\<lparr>status := status client, expires_at := expires_at client,
              used_this_month :=
                (if last_reset_month client \<noteq> thisMonth then 0 else used_this_month client) + 1,
              last_reset_month := thisMonth,
              total_verifications := total_verifications client + 1\<rparr>)"
  using assms
  by (auto simp: api_verify_def consume3_def record_success_def checkMonthlyReset_def
      get_after_update Let_def split: if_splits option.splits)

lemma attest_expired_never_approves:
  "activeChallenges s (key_of (r_nonce req)) = None \<or>
   (\<exists>ch. activeChallenges s (key_of (r_nonce req)) = Some ch \<and> c_expiry ch < now) \<Longrightarrow>
     \<not> approving (fst (attest now rnd req s))"
  by (auto simp: attest_def Let_def split: if_splits)

lemma api_verify_expired_never_approves:
  "challenges3 s (key_of (v_nonce req)) = None \<or>
   (\<exists>ch. challenges3 s (key_of (v_nonce req)) = Some ch \<and> c_expiry ch < now) \<Longrightarrow>
     \<not> approving3 (fst (api_verify now thisMonth client req s))"
  by (auto simp: api_verify_def Let_def split: if_splits)











section \<open>One-time use of a nonce\<close>




section \<open>The panic path of \<open>/attest\<close>\<close>



section \<open>Validation of a session token\<close>

text \<open>
  Claim C9. Take a call to \<open>/verify\<close> of the secure-mode server that carries a token. If
  the token is not in the session store the answer is INVALID. If it is there and its
  expiry lies before \<open>now\<close>, the token is deleted and the answer is EXPIRED, so that any
  later validation of the same token answers INVALID. Otherwise the answer is VALID with
  the session's risk score, device, time of issue and expiry. No other answer is given.
\<close>

theorem session_validation:
  assumes tok: "truthy sessionToken"
  shows "(sessions st (key_of sessionToken) = None \<longrightarrow>
            verify_session now sessionToken st = (INVALID, count_verification st)) \<and>
         (\<forall>s. sessions st (key_of sessionToken) = Some s \<and> s_expiry s < now \<longrightarrow>
            verify_session now sessionToken st =
              (EXPIRED, count_verification
                 (st\<lparr>sessions := (sessions st)(key_of sessionToken := None)\<rparr>)) \<and>
            sessions (snd (verify_session now sessionToken st)) (key_of sessionToken) = None \<and>
            (\<forall>now'. fst (verify_session now' sessionToken
                           (snd (verify_session now sessionToken st))) = INVALID)) \<and>
         (\<forall>s. sessions st (key_of sessionToken) = Some s \<and> \<not> s_expiry s < now \<longrightarrow>
            verify_session now sessionToken st =
              (VALID (s_riskScore s) (s_deviceId s) (s_createdAt s) (s_expiry s),
               count_verification st)) \<and>
         (fst (verify_session now sessionToken st) = INVALID \<or>
          fst (verify_session now sessionToken st) = EXPIRED \<or>
          (\<exists>r d c e. fst (verify_session now sessionToken st) = VALID r d c e))"
  using tok
  by (auto simp: verify_session_def count_verification_def Let_def split: option.splits)

theorem session_validation_witness:
  "truthy (Some ''VALID_aa'') \<and>
   fst (verify_session 2000 (Some ''VALID_aa'') ex_server_s) = VALID MEDIUM ''dev'' 1000 301000 \<and>
   fst (verify_session 400000 (Some ''VALID_aa'') ex_server_s) = EXPIRED \<and>
   fst (verify_session 400001 (Some ''VALID_aa'')
          (snd (verify_session 400000 (Some ''VALID_aa'') ex_server_s))) = INVALID \<and>
   fst (verify_session 2000 (Some ''nope'') ex_server_s) = INVALID"
proof -
  have t: "truthy (Some ''VALID_aa'')" by simp
  have s: "sessions ex_server_s (key_of (Some ''VALID_aa'')) = Some ex_session"
    by (simp add: ex_server_s_def)
  have e: "s_expiry ex_session < 400000" "\<not> s_expiry ex_session < 2000"
    by (simp_all add: ex_session_def)
  note T = session_validation [OF t, of ex_server_s]
  from T [of 2000] s e(2)
  have a: "fst (verify_session 2000 (Some ''VALID_aa'') ex_server_s) = VALID MEDIUM ''dev'' 1000 301000"
    by (simp add: ex_session_def)
  from T [of 400000] s e(1)
  have b: "fst (verify_session 400000 (Some ''VALID_aa'') ex_server_s) = EXPIRED"
    and c: "fst (verify_session 400001 (Some ''VALID_aa'')
          (snd (verify_session 400000 (Some ''VALID_aa'') ex_server_s))) = INVALID"
    by auto
  have n: "truthy (Some ''nope'')" by simp
  have "sessions ex_server_s (key_of (Some ''nope'')) = None" by (simp add: ex_server_s_def)
  with session_validation [OF n, of ex_server_s 2000]
  have d: "fst (verify_session 2000 (Some ''nope'') ex_server_s) = INVALID" by simp
  from t a b c d show ?thesis by simp
qed

section \<open>Renewal of a client\<close>




section \<open>The approval decision\<close>




section \<open>The risk score\<close>



section \<open>The shape of the approval responses\<close>

text \<open>
  Claim C3, as amended. The body of a panic approval has the fields \<open>success\<close>,
  \<open>sessionToken\<close>, \<open>verdict\<close> and \<open>riskScore\<close>; the body of a normal approval has these
  and \<open>expiry\<close> in addition. Besides the risk score (CRITICAL against LOW, MEDIUM or HIGH)
  the two differ in \<open>verdict\<close> (\<open>APPROVED_SILENT_ALARM\<close> against \<open>APPROVED\<close>) and in the
  prefix of the token (\<open>DURESS_\<close> against \<open>VALID_\<close>).
\<close>

theorem approval_responses:
  "(attest now rnd req st = (PanicApproved tok, st') \<longrightarrow>
      attest_response (PanicApproved tok) =
        (200, [(''success'', JBool True), (''sessionToken'', JStr (''DURESS_'' @ rnd)),
               (''verdict'', JStr ''APPROVED_SILENT_ALARM''), (''riskScore'', JStr ''CRITICAL'')]) \<and>
      field_names (attest_response (PanicApproved tok)) =
        {''success'', ''sessionToken'', ''verdict'', ''riskScore''}) \<and>
   (attest now rnd req st = (Approved tok r e, st') \<longrightarrow>
      attest_response (Approved tok r e) =
        (200, [(''success'', JBool True), (''sessionToken'', JStr (''VALID_'' @ rnd)),
               (''verdict'', JStr ''APPROVED''), (''riskScore'', JStr (risk_str r)),
               (''expiry'', JInt (now + 5 * 60 * 1000))]) \<and>
      (r = LOW \<or> r = MEDIUM \<or> r = HIGH) \<and>
      field_names (attest_response (Approved tok r e)) =
        {''success'', ''sessionToken'', ''verdict'', ''riskScore'', ''expiry''})"
proof -
  have p: "attest now rnd req st = (PanicApproved tok, st') \<Longrightarrow> tok = ''DURESS_'' @ rnd"
    by (auto simp: attest_def attest_normal_def Let_def split: if_splits option.splits sensor.splits)
  have a: "attest now rnd req st = (Approved tok r e, st') \<Longrightarrow>
      tok = ''VALID_'' @ rnd \<and> e = now + 5 * 60 * 1000 \<and> (r = LOW \<or> r = MEDIUM \<or> r = HIGH)"
    by (auto simp: attest_def attest_normal_def Let_def riskScore_of_def
        split: if_splits option.splits sensor.splits)
  have f1: "field_names (attest_response (PanicApproved tok)) =
        {''success'', ''sessionToken'', ''verdict'', ''riskScore''}"
    by (simp add: field_names_def)
  have f2: "field_names (attest_response (Approved tok r e)) =
        {''success'', ''sessionToken'', ''verdict'', ''riskScore'', ''expiry''}"
    by (simp add: field_names_def)
  show ?thesis using p a f1 f2 by auto
qed

theorem approval_responses_witness:
  "attest 1000 ''aa'' ex_req_panic ex_server =
     (PanicApproved ''DURESS_aa'',
      \<lparr>activeChallenges = Map.empty, sessions = Map.empty,
       stats = ex_stats\<lparr>panicModeActivations := 1\<rparr>\<rparr>) \<and>
   field_names (attest_response (PanicApproved ''DURESS_aa'')) =
     {''success'', ''sessionToken'', ''verdict'', ''riskScore''} \<and>
   attest 1000 ''aa'' ex_req_ok ex_server =
     (Approved ''VALID_aa'' MEDIUM 301000,
      \<lparr>activeChallenges = Map.empty, sessions = [''VALID_aa'' \<mapsto> ex_session],
       stats = ex_stats\<lparr>totalAttestations := 1, successfulAttestations := 1\<rparr>\<rparr>) \<and>
   field_names (attest_response (Approved ''VALID_aa'' MEDIUM 301000)) =
     {''success'', ''sessionToken'', ''verdict'', ''riskScore'', ''expiry''}"
proof -
  have a: "field_names (attest_response (PanicApproved ''DURESS_aa'')) =
     {''success'', ''sessionToken'', ''verdict'', ''riskScore''}"
    using mp [OF conjunct1 [OF approval_responses] ex_panic] by (rule conjunct2)
  have b: "field_names (attest_response (Approved ''VALID_aa'' MEDIUM 301000)) =
     {''success'', ''sessionToken'', ''verdict'', ''riskScore'', ''expiry''}"
    using mp [OF conjunct2 [OF approval_responses] ex_approved] by (elim conjE)
  show ?thesis
    using ex_panic a ex_approved b by (intro conjI)
qed

text \<open>
  As first written (the same set of fields, only the risk score differing) the claim
  fails: on the example challenge the panic body lacks \<open>expiry\<close> and carries another
  \<open>verdict\<close> than the normal body.
\<close>

theorem panic_response_differs:
  "fst (attest 1000 ''aa'' ex_req_panic ex_server) = PanicApproved ''DURESS_aa'' \<and>
   fst (attest 1000 ''aa'' ex_req_ok ex_server) = Approved ''VALID_aa'' MEDIUM 301000 \<and>
   field_names (attest_response (fst (attest 1000 ''aa'' ex_req_panic ex_server))) \<noteq>
   field_names (attest_response (fst (attest 1000 ''aa'' ex_req_ok ex_server))) \<and>
   map_of (snd (attest_response (fst (attest 1000 ''aa'' ex_req_panic ex_server)))) ''verdict'' \<noteq>
   map_of (snd (attest_response (fst (attest 1000 ''aa'' ex_req_ok ex_server)))) ''verdict''"
proof -
  have a: "''expiry'' \<notin> field_names (attest_response (PanicApproved ''DURESS_aa''))"
    by (simp add: field_names_def)
  have b: "''expiry'' \<in> field_names (attest_response (Approved ''VALID_aa'' MEDIUM 301000))"
    by (simp add: field_names_def)
  from a b have "field_names (attest_response (PanicApproved ''DURESS_aa'')) \<noteq>
      field_names (attest_response (Approved ''VALID_aa'' MEDIUM 301000))"
    by blast
  then show ?thesis by (simp add: ex_panic ex_approved)
qed

section \<open>Sessions and usage on approval\<close>

text \<open>
  Claim C4, as amended. A normal approval of \<open>/attest\<close> stores a session under the token
  it returns, with the risk score and an expiry five minutes after \<open>now\<close>, and \<open>/verify\<close>
  answers VALID for that token as long as the expiry has not passed. A panic approval
  returns a token but stores no session, and neither does any other answer of \<open>/attest\<close>,
  \<open>/getChallenge\<close>, the sweep or \<open>/verify\<close>: a session is created by a normal approval
  only. \<open>/api/v1/verify\<close> never stores a session; when it allows a call it writes the
  caller's row with \<open>used_this_month\<close> (set back to 0 first when the month has changed)
  and \<open>total_verifications\<close> each increased by one. The secure-mode server has no client
  registry to record usage in.
\<close>

theorem sessions_and_usage:
  "(attest now rnd req st = (Approved tok r e, st') \<longrightarrow>
      (\<exists>s. sessions st' tok = Some s \<and> s_riskScore s = r \<and> s_expiry s = e) \<and>
      e = now + 5 * 60 * 1000 \<and>
      (\<forall>now'. \<not> e < now' \<longrightarrow>
         fst (verify_session now' (Some tok) st') = VALID r (key_of (r_deviceId req)) now e)) \<and>
   (attest now rnd req st = (PanicApproved tok, st') \<longrightarrow> sessions st' = sessions st) \<and>
   (attest now rnd req st = (res, st') \<and> (\<forall>tok r e. res \<noteq> Approved tok r e) \<longrightarrow>
      sessions st' = sessions st) \<and>
   sessions (getChallenge now digits nonce st) = sessions st \<and>
   dom (sessions (cleanup now st)) \<subseteq> dom (sessions st) \<and>
   dom (sessions (snd (verify_session now sessionToken st))) \<subseteq> dom (sessions st) \<and>
   (api_verify now thisMonth client vreq st3 = (res3, st3') \<longrightarrow> sessions3 st3' = sessions3 st3) \<and>
   (api_verify now thisMonth client vreq st3 = (Allowed r3 nm, st3') \<and>
    stmtGetClient (api_key client) (clients st3) = Some row \<longrightarrow>
      stmtGetClient (api_key client) (clients st3') =
        Some (row\<lparr>status := status client, expires_at := expires_at client,
                 used_this_month :=
                   (if last_reset_month client \<noteq> thisMonth then 0 else used_this_month client) + 1,
                 last_reset_month := thisMonth,
                 total_verifications := total_verifications client + 1\<rparr>))"
proof -
  have a: "attest now rnd req st = (Approved tok r e, st') \<longrightarrow>
      (\<exists>s. sessions st' tok = Some s \<and> s_riskScore s = r \<and> s_expiry s = e) \<and>
      e = now + 5 * 60 * 1000 \<and>
      (\<forall>now'. \<not> e < now' \<longrightarrow>
         fst (verify_session now' (Some tok) st') = VALID r (key_of (r_deviceId req)) now e)"
  proof
    assume h: "attest now rnd req st = (Approved tok r e, st')"
    from attest_approved_session [OF h] obtain s where
      t: "tok = ''VALID_'' @ rnd" and e: "e = now + 5 * 60 * 1000" and
      s: "sessions st' = (sessions st)(tok \<mapsto> s)" "s_riskScore s = r" "s_expiry s = e"
        "s_deviceId s = key_of (r_deviceId req)" "s_createdAt s = now"
      by blast
    have "fst (verify_session now' (Some tok) st') = VALID r (key_of (r_deviceId req)) now e"
      if "\<not> e < now'" for now'
      using that s t by (simp add: verify_session_def Let_def)
    with s e show "(\<exists>s. sessions st' tok = Some s \<and> s_riskScore s = r \<and> s_expiry s = e) \<and>
      e = now + 5 * 60 * 1000 \<and>
      (\<forall>now'. \<not> e < now' \<longrightarrow>
         fst (verify_session now' (Some tok) st') = VALID r (key_of (r_deviceId req)) now e)"
      by simp
  qed
  have b: "attest now rnd req st = (PanicApproved tok, st') \<longrightarrow> sessions st' = sessions st"
    using attest_sessions_unchanged [of now rnd req st "PanicApproved tok" st'] by simp
  have c: "attest now rnd req st = (res, st') \<and> (\<forall>tok r e. res \<noteq> Approved tok r e) \<longrightarrow>
      sessions st' = sessions st"
    using attest_sessions_unchanged by blast
  have d: "sessions (getChallenge now digits nonce st) = sessions st"
    by (simp add: getChallenge_def)
  have e: "dom (sessions (cleanup now st)) \<subseteq> dom (sessions st)"
    by (auto simp: cleanup_def sweep_sessions_def split: option.splits if_splits)
  have f: "dom (sessions (snd (verify_session now sessionToken st))) \<subseteq> dom (sessions st)"
    by (auto simp: verify_session_def count_verification_def Let_def split: option.splits if_splits)
  have g: "api_verify now thisMonth client vreq st3 = (res3, st3') \<longrightarrow> sessions3 st3' = sessions3 st3"
    using api_verify_sessions by blast
  have h: "api_verify now thisMonth client vreq st3 = (Allowed r3 nm, st3') \<and>
    stmtGetClient (api_key client) (clients st3) = Some row \<longrightarrow>
      stmtGetClient (api_key client) (clients st3') =
        Some (row\<lparr>status := status client, expires_at := expires_at client,
                 used_this_month :=
                   (if last_reset_month client \<noteq> thisMonth then 0 else used_this_month client) + 1,
                 last_reset_month := thisMonth,
                 total_verifications := total_verifications client + 1\<rparr>)"
    using api_verify_usage by blast
  from a b c d e f g h show ?thesis by blast
qed

theorem sessions_and_usage_witness:
  "attest 1000 ''aa'' ex_req_ok ex_server =
     (Approved ''VALID_aa'' MEDIUM 301000,
      \<lparr>activeChallenges = Map.empty, sessions = [''VALID_aa'' \<mapsto> ex_session],
       stats = ex_stats\<lparr>totalAttestations := 1, successfulAttestations := 1\<rparr>\<rparr>) \<and>
   \<not> (301000::int) < 2000 \<and>
   fst (verify_session 2000 (Some ''VALID_aa'')
         \<lparr>activeChallenges = Map.empty, sessions = [''VALID_aa'' \<mapsto> ex_session],
          stats = ex_stats\<lparr>totalAttestations := 1, successfulAttestations := 1\<rparr>\<rparr>) =
     VALID MEDIUM (key_of (r_deviceId ex_req_ok)) 1000 301000 \<and>
   api_verify 1000 ''2026-9'' ex_client ex_ok3 ex_server3 = (Allowed MEDIUM ''Acme'', ex_final3) \<and>
   stmtGetClient (api_key ex_client) (clients ex_server3) = Some ex_client \<and>
   stmtGetClient (api_key ex_client) (clients ex_final3) =
     Some (ex_client\<lparr>used_this_month := 8, total_verifications := 41\<rparr>)"
proof -
  note T = sessions_and_usage [where now = 1000 and rnd = "''aa''" and req = ex_req_ok
      and st = ex_server and tok = "''VALID_aa''" and r = MEDIUM and e = 301000
      and st' = "\<lparr>activeChallenges = Map.empty, sessions = [''VALID_aa'' \<mapsto> ex_session],
        stats = ex_stats\<lparr>totalAttestations := 1, successfulAttestations := 1\<rparr>\<rparr>"
      and thisMonth = "''2026-9''" and client = ex_client and vreq = ex_ok3
      and ?st3.0 = ex_server3 and ?r3.0 = MEDIUM and nm = "''Acme''" and st3' = ex_final3
      and row = ex_client]
  have x: "\<not> (301000::int) < 2000" by simp
  from T ex_approved x
  have a: "fst (verify_session 2000 (Some ''VALID_aa'')
         \<lparr>activeChallenges = Map.empty, sessions = [''VALID_aa'' \<mapsto> ex_session],
          stats = ex_stats\<lparr>totalAttestations := 1, successfulAttestations := 1\<rparr>\<rparr>) =
     VALID MEDIUM (key_of (r_deviceId ex_req_ok)) 1000 301000"
    by blast
  have g: "stmtGetClient (api_key ex_client) (clients ex_server3) = Some ex_client"
    by (simp add: stmtGetClient_def ex_server3_def)
  have g': "stmtGetClient (api_key ex_client) (clients ex_final3) =
     Some (ex_client\<lparr>used_this_month := 8, total_verifications := 41\<rparr>)"
    by (simp add: stmtGetClient_def ex_final3_def)
  from ex_approved x a ex_allowed g g' show ?thesis by blast
qed

text \<open>
  As first written (every approval mints a session) the claim fails on the panic path:
  the \<open>DURESS_\<close> token returned is not in the session store, and \<open>/verify\<close> answers
  INVALID for it.
\<close>

theorem panic_mints_no_session:
  "fst (attest 1000 ''aa'' ex_req_panic ex_server) = PanicApproved ''DURESS_aa'' \<and>
   sessions (snd (attest 1000 ''aa'' ex_req_panic ex_server)) ''DURESS_aa'' = None \<and>
   fst (verify_session 2000 (Some ''DURESS_aa'') (snd (attest 1000 ''aa'' ex_req_panic ex_server))) =
     INVALID"
  by (simp add: ex_panic verify_session_def Let_def)

section \<open>Expired challenges\<close>

text \<open>
  Claim C7, as amended. A call made when \<open>now\<close> is past the expiry of the challenge stored
  under its nonce is never approved, whether or not the sweep has run in between. As
  long as the challenge is still in the store, a call with all its fields (in
  \<open>/api/v1/verify\<close>: by the owner of the challenge) on an unused challenge is answered
  "challenge expired" and the entry is removed; once a sweep at a time past the expiry
  has removed the entry, the same call is answered "invalid or expired nonce" instead.
\<close>

theorem expired_never_approved:
  "(activeChallenges st (key_of (r_nonce req)) = Some ch \<and> c_expiry ch < now \<longrightarrow>
      \<not> approving (fst (attest now rnd req st)) \<and>
      (\<forall>t. \<not> approving (fst (attest now rnd req (cleanup t st)))) \<and>
      (truthy (r_nonce req) \<and> truthy (r_deviceId req) \<and> r_userResponse req \<noteq> RespMissing \<and>
       r_biometricData req \<noteq> None \<and> \<not> c_used ch \<longrightarrow>
         attest now rnd req st =
           (ChallengeExpired,
            fail_attest (st\<lparr>activeChallenges :=
              (activeChallenges st)(key_of (r_nonce req) := None)\<rparr>)) \<and>
         (\<forall>t. fst (attest now rnd req (cleanup t st)) =
                (if c_expiry ch < t then InvalidNonce else ChallengeExpired)))) \<and>
   (challenges3 st3 (key_of (v_nonce vreq)) = Some ch3 \<and> c_expiry ch3 < now \<longrightarrow>
      \<not> approving3 (fst (api_verify now thisMonth client vreq st3)) \<and>
      (\<forall>t. \<not> approving3 (fst (api_verify now thisMonth client vreq (cleanup3 t st3)))) \<and>
      (truthy (v_nonce vreq) \<and> v_userResponse vreq \<noteq> RespMissing \<and>
       v_biometricData vreq \<noteq> None \<and> c_apiKey ch3 = api_key client \<and> \<not> c_used ch3 \<longrightarrow>
         api_verify now thisMonth client vreq st3 =
           (Challenge_expired,
            fail_verify (st3\<lparr>challenges3 :=
              (challenges3 st3)(key_of (v_nonce vreq) := None)\<rparr>)) \<and>
         (\<forall>t. fst (api_verify now thisMonth client vreq (cleanup3 t st3)) =
                (if c_expiry ch3 < t then Invalid_or_expired_nonce else Challenge_expired))))"
proof -
  have a: "\<not> approving (fst (attest now rnd req st))"
    and b: "\<not> approving (fst (attest now rnd req (cleanup t st)))"
    if "activeChallenges st (key_of (r_nonce req)) = Some ch" "c_expiry ch < now" for t
    using that
    by (auto intro!: attest_expired_never_approves simp: cleanup_def sweep_challenges_def
        split: if_splits)
  have c: "attest now rnd req st =
           (ChallengeExpired,
            fail_attest (st\<lparr>activeChallenges :=
              (activeChallenges st)(key_of (r_nonce req) := None)\<rparr>))"
    and d: "fst (attest now rnd req (cleanup t st)) =
                (if c_expiry ch < t then InvalidNonce else ChallengeExpired)"
    if "activeChallenges st (key_of (r_nonce req)) = Some ch" "c_expiry ch < now"
      "truthy (r_nonce req)" "truthy (r_deviceId req)" "r_userResponse req \<noteq> RespMissing"
      "r_biometricData req \<noteq> None" "\<not> c_used ch" for t
    using that
    by (auto simp: attest_def Let_def cleanup_def sweep_challenges_def)
  have a3: "\<not> approving3 (fst (api_verify now thisMonth client vreq st3))"
    and b3: "\<not> approving3 (fst (api_verify now thisMonth client vreq (cleanup3 t st3)))"
    if "challenges3 st3 (key_of (v_nonce vreq)) = Some ch3" "c_expiry ch3 < now" for t
    using that
    by (auto intro!: api_verify_expired_never_approves simp: cleanup3_def sweep_challenges_def
        split: if_splits)
  have c3: "api_verify now thisMonth client vreq st3 =
           (Challenge_expired,
            fail_verify (st3\<lparr>challenges3 :=
              (challenges3 st3)(key_of (v_nonce vreq) := None)\<rparr>))"
    and d3: "fst (api_verify now thisMonth client vreq (cleanup3 t st3)) =
                (if c_expiry ch3 < t then Invalid_or_expired_nonce else Challenge_expired)"
    if "challenges3 st3 (key_of (v_nonce vreq)) = Some ch3" "c_expiry ch3 < now"
      "truthy (v_nonce vreq)" "v_userResponse vreq \<noteq> RespMissing"
      "v_biometricData vreq \<noteq> None" "c_apiKey ch3 = api_key client" "\<not> c_used ch3" for t
    using that
    by (auto simp: api_verify_def Let_def cleanup3_def sweep_challenges_def)
  show ?thesis
    apply (intro conjI impI allI)
    subgoal using a by blast
    subgoal using b by blast
    subgoal using c by blast
    subgoal using d by blast
    subgoal using a3 by blast
    subgoal using b3 by blast
    subgoal using c3 by blast
    subgoal using d3 by blast
    done
qed

theorem expired_never_approved_witness:
  "activeChallenges ex_server (key_of (r_nonce ex_req_ok)) = Some ex_challenge \<and>
   c_expiry ex_challenge < 130000 \<and>
   truthy (r_nonce ex_req_ok) \<and> truthy (r_deviceId ex_req_ok) \<and>
   r_userResponse ex_req_ok \<noteq> RespMissing \<and> r_biometricData ex_req_ok \<noteq> None \<and>
   \<not> c_used ex_challenge \<and>
   fst (attest 130000 ''aa'' ex_req_ok ex_server) = ChallengeExpired \<and>
   \<not> approving (fst (attest 130000 ''aa'' ex_req_ok (cleanup 120000 ex_server))) \<and>
   challenges3 ex_server3 (key_of (v_nonce ex_ok3)) = Some ex_challenge3 \<and>
   c_expiry ex_challenge3 < 130000 \<and>
   truthy (v_nonce ex_ok3) \<and> v_userResponse ex_ok3 \<noteq> RespMissing \<and>
   v_biometricData ex_ok3 \<noteq> None \<and> c_apiKey ex_challenge3 = api_key ex_client \<and>
   \<not> c_used ex_challenge3 \<and>
   fst (api_verify 130000 ''2026-9'' ex_client ex_ok3 ex_server3) = Challenge_expired \<and>
   \<not> approving3 (fst (api_verify 130000 ''2026-9'' ex_client ex_ok3 (cleanup3 120000 ex_server3)))"
proof -
  have h: "activeChallenges ex_server (key_of (r_nonce ex_req_ok)) = Some ex_challenge \<and>
    c_expiry ex_challenge < 130000"
    by (simp add: ex_defs)
  have f: "truthy (r_nonce ex_req_ok) \<and> truthy (r_deviceId ex_req_ok) \<and>
    r_userResponse ex_req_ok \<noteq> RespMissing \<and> r_biometricData ex_req_ok \<noteq> None \<and>
    \<not> c_used ex_challenge"
    by (simp add: ex_defs)
  have h3: "challenges3 ex_server3 (key_of (v_nonce ex_ok3)) = Some ex_challenge3 \<and>
    c_expiry ex_challenge3 < 130000"
    by (simp add: ex_defs)
  have f3: "truthy (v_nonce ex_ok3) \<and> v_userResponse ex_ok3 \<noteq> RespMissing \<and>
    v_biometricData ex_ok3 \<noteq> None \<and> c_apiKey ex_challenge3 = api_key ex_client \<and>
    \<not> c_used ex_challenge3"
    by (simp add: ex_defs)
  note T = expired_never_approved [where now = 130000 and rnd = "''aa''" and req = ex_req_ok
      and st = ex_server and ch = ex_challenge and thisMonth = "''2026-9''"
      and client = ex_client and vreq = ex_ok3 and ?st3.0 = ex_server3
      and ?ch3.0 = ex_challenge3]
  from T h f have "attest 130000 ''aa'' ex_req_ok ex_server =
      (ChallengeExpired,
       fail_attest (ex_server\<lparr>activeChallenges :=
         (activeChallenges ex_server)(key_of (r_nonce ex_req_ok) := None)\<rparr>))"
    by blast
  then have a: "fst (attest 130000 ''aa'' ex_req_ok ex_server) = ChallengeExpired" by simp
  from T h have b: "\<not> approving (fst (attest 130000 ''aa'' ex_req_ok (cleanup 120000 ex_server)))"
    by blast
  from T h3 f3 have "api_verify 130000 ''2026-9'' ex_client ex_ok3 ex_server3 =
      (Challenge_expired,
       fail_verify (ex_server3\<lparr>challenges3 :=
         (challenges3 ex_server3)(key_of (v_nonce ex_ok3) := None)\<rparr>))"
    by blast
  then have a3: "fst (api_verify 130000 ''2026-9'' ex_client ex_ok3 ex_server3) = Challenge_expired"
    by simp
  from T h3
  have b3: "\<not> approving3 (fst (api_verify 130000 ''2026-9'' ex_client ex_ok3
      (cleanup3 120000 ex_server3)))"
    by blast
  from h f a b h3 f3 a3 b3 show ?thesis by blast
qed

text \<open>
  As first written (always the answer "challenge expired", swept or not) the claim fails
  once the sweep has run: the example challenge expires at 60000, the sweep runs at
  120000, and the call at 130000 is answered "invalid or expired nonce".
\<close>

theorem swept_expired_is_invalid:
  "activeChallenges ex_server (key_of (r_nonce ex_req_ok)) = Some ex_challenge \<and>
   c_expiry ex_challenge < 130000 \<and>
   fst (attest 130000 ''aa'' ex_req_ok (cleanup 120000 ex_server)) = InvalidNonce \<and>
   fst (attest 130000 ''aa'' ex_req_ok (cleanup 120000 ex_server)) \<noteq> ChallengeExpired"
  by (simp add: ex_defs attest_def cleanup_def sweep_challenges_def Let_def)

section \<open>The monthly quota\<close>




end
